theory Spec2Isabelle
  imports Main
begin

section \<open>JavaScript values handled by the record translator\<close>

text \<open>
  The values that reach \<open>toVisual\<close>, \<open>toPhysical\<close> and the four single-axis
  translations are arbitrary JavaScript values: a caller may pass a number, \<open>undefined\<close>,
  a coordinate object, an array. Objects and arrays are represented by their contents
  (the translation code only reads properties and builds fresh literals; it never compares
  object identities). Index numbers are integers.
\<close>

datatype jsval =
    JUndefined
  | JNull
  | JBool bool
  | JNum int
  | JStr string
  | JArr "jsval list"
  | JObj "(string \<times> jsval) list"

text \<open>What a JavaScript operation can throw in this file.\<close>

datatype js_error =
    TypeError
  | Error string

text \<open>
  Modelled from the spec: \<open>isObject\<close> of \<open>helpers/object\<close> is not part of the source
  at hand; the spec calls it the helper deciding "is this value object-like". Objects are
  object-like; \<open>undefined\<close>, \<open>null\<close>, the primitives and arrays are not.
\<close>

fun isObject :: "jsval \<Rightarrow> bool" where
  "isObject (JObj ps) = True"
| "isObject v = False"

text \<open>
  The property read \<open>v.k\<close>. Reading a property of \<open>undefined\<close> or \<open>null\<close> throws a
  TypeError; an object yields the stored value or \<open>undefined\<close> when the key is absent;
  the other values have no own property of the names read here.
\<close>

definition ownProperty :: "(string \<times> jsval) list \<Rightarrow> string \<Rightarrow> jsval" where
  "ownProperty ps k = (case map_of ps k of None \<Rightarrow> JUndefined | Some v \<Rightarrow> v)"

fun getProp :: "jsval \<Rightarrow> string \<Rightarrow> js_error + jsval" where
  "getProp JUndefined k = Inl TypeError"
| "getProp JNull k = Inl TypeError"
| "getProp (JObj ps) k = Inr (ownProperty ps k)"
| "getProp v k = Inr JUndefined"

section \<open>IndexMapper\<close>

text \<open>
  Modelled from the spec: the class \<open>IndexMapper\<close> (\<open>./indexMapper\<close>) is imported by
  the source at hand but is not part of it. The spec gives its data model: \<open>indexOrder\<close>,
  the ordered sequence of physical indexes of the axis, and \<open>skipped\<close>, the physical
  indexes excluded from rendering. A mapper created by \<open>new IndexMapper()\<close> knows no
  index and skips none.
\<close>

record IndexMapper =
  indexOrder :: "int list"
  skipped :: "int list"

text \<open>
  Modelled from the spec: the constructor \<open>new IndexMapper()\<close>, called without
  arguments by the translator's constructor; the index order is supplied by the host later.
\<close>

definition new_IndexMapper :: IndexMapper where
  "new_IndexMapper = \<lparr> indexOrder = [], skipped = [] \<rparr>"

text \<open>
  Modelled from the spec: the unmapped sentinel, the "defined no corresponding index
  result returned for skipped or out-of-range translation requests". The spec leaves its
  value open ("conventionally -1 or undefined"); \<open>undefined\<close> is taken here.
\<close>

definition unmapped :: jsval where
  "unmapped = JUndefined"

text \<open>
  Modelled from the spec: "Derived visualOrder: the ordered sequence obtained by
  filtering indexOrder to remove any index present in skipped. Slot i in visualOrder is
  visual index i." It is recomputed on every read, which the spec allows, so that no
  stale translation can be observed.
\<close>

definition visualOrder :: "IndexMapper \<Rightarrow> int list" where
  "visualOrder m = filter (\<lambda>p. p \<notin> set (skipped m)) (indexOrder m)"

text \<open>Position of the first occurrence of a value in a list.\<close>

fun indexOf :: "int list \<Rightarrow> int \<Rightarrow> nat option" where
  "indexOf [] p = None"
| "indexOf (x # xs) p =
     (if x = p then Some 0
      else (case indexOf xs p of None \<Rightarrow> None | Some i \<Rightarrow> Some (Suc i)))"

text \<open>
  Modelled from the spec: "getVisualIndex(physicalIndex): if the physical index is not
  skipped, the result equals its zero-based rank among all non-skipped physical indexes
  when walked in indexOrder order"; a skipped index and an index unknown to
  \<open>indexOrder\<close> (a value that is no number included) give the unmapped sentinel.
\<close>

fun getVisualIndex :: "IndexMapper \<Rightarrow> jsval \<Rightarrow> jsval" where
  "getVisualIndex m (JNum p) =
     (case indexOf (visualOrder m) p of None \<Rightarrow> unmapped | Some i \<Rightarrow> JNum (int i))"
| "getVisualIndex m v = unmapped"

text \<open>
  Modelled from the spec: "getPhysicalIndex(visualIndex): visualIndex must be a valid
  rank into the current visual sequence; out-of-range returns the unmapped sentinel."
\<close>

fun getPhysicalIndex :: "IndexMapper \<Rightarrow> jsval \<Rightarrow> jsval" where
  "getPhysicalIndex m (JNum i) =
     (if 0 \<le> i \<and> i < int (length (visualOrder m)) then JNum (visualOrder m ! nat i)
      else unmapped)"
| "getPhysicalIndex m v = unmapped"

text \<open>
  Modelled from the spec: "getSkippedIndexes(): ordered sequence of physical indexes
  currently skipped", "isSkipped(physicalIndex): membership test against skipped",
  "setSkippedIndexes(newSkippedList): replaces the entire skipped set".
\<close>

definition getSkippedIndexes :: "IndexMapper \<Rightarrow> int list" where
  "getSkippedIndexes m = skipped m"

definition isSkipped :: "IndexMapper \<Rightarrow> int \<Rightarrow> bool" where
  "isSkipped m p = (p \<in> set (skipped m))"

definition setSkippedIndexes :: "IndexMapper \<Rightarrow> int list \<Rightarrow> IndexMapper" where
  "setSkippedIndexes m indexes = m \<lparr> skipped := indexes \<rparr>"

section \<open>The host and its hooks\<close>

text \<open>
  Modelled from the spec: the host class \<open>Core\<close> (\<open>./../core\<close>) is not part of the
  source at hand. The spec gives its one capability: "run the named hook with this value,
  return the (possibly transformed) value". A hook may keep state of its own, so the host
  is a state together with the function that runs a named hook on a value in a state and
  yields the returned value and the next state.
\<close>

record 's Core =
  hstate :: 's
  hooks :: "string \<Rightarrow> jsval \<Rightarrow> 's \<Rightarrow> jsval \<times> 's"

text \<open>
  Modelled from the spec: \<open>hot.runHooks(name, value)\<close>, the call "run the named hook
  with this value, return the (possibly transformed) value", here with the host afterwards.
\<close>

definition runHooks :: "'s Core \<Rightarrow> string \<Rightarrow> jsval \<Rightarrow> jsval \<times> 's Core" where
  "runHooks h name v =
     (case hooks h name v (hstate h) of (v', s') \<Rightarrow> (v', h \<lparr> hstate := s' \<rparr>))"

section \<open>RecordTranslator\<close>

text \<open>
  The class of \<open>recordTranslator.js\<close>: the host it was constructed for and one
  IndexMapper per axis. The host field holds whatever the constructor was given.
  A method that runs a hook returns its value together with the translator afterwards
  (the host's state may have changed); the setters return the translator afterwards.
\<close>

record 'h RecordTranslator =
  hot :: 'h
  rowIndexMapper :: IndexMapper
  columnIndexMapper :: IndexMapper

definition new_RecordTranslator :: "'h \<Rightarrow> 'h RecordTranslator" where
  "new_RecordTranslator h =
     \<lparr> hot = h, rowIndexMapper = new_IndexMapper, columnIndexMapper = new_IndexMapper \<rparr>"

definition toVisualRow ::
  "'s Core RecordTranslator \<Rightarrow> jsval \<Rightarrow> jsval \<times> 's Core RecordTranslator" where
  "toVisualRow t row =
     (case runHooks (hot t) ''unmodifyRow'' (getVisualIndex (rowIndexMapper t) row) of
        (v, h') \<Rightarrow> (v, t \<lparr> hot := h' \<rparr>))"

definition toVisualColumn ::
  "'s Core RecordTranslator \<Rightarrow> jsval \<Rightarrow> jsval \<times> 's Core RecordTranslator" where
  "toVisualColumn t column =
     (case runHooks (hot t) ''unmodifyCol'' (getVisualIndex (columnIndexMapper t) column) of
        (v, h') \<Rightarrow> (v, t \<lparr> hot := h' \<rparr>))"

definition toVisual ::
  "'s Core RecordTranslator \<Rightarrow> jsval \<Rightarrow> jsval
     \<Rightarrow> js_error + (jsval \<times> 's Core RecordTranslator)" where
  "toVisual t row column =
     (if isObject row then
        (case getProp row ''row'' of
           Inl e \<Rightarrow> Inl e
         | Inr row_row \<Rightarrow>
             (case toVisualRow t row_row of
                (r, t1) \<Rightarrow>
                  (case getProp row ''column'' of
                     Inl e \<Rightarrow> Inl e
                   | Inr row_column \<Rightarrow>
                       (case toVisualColumn t1 row_column of
                          (c, t2) \<Rightarrow> Inr (JObj [(''row'', r), (''column'', c)], t2)))))
      else
        (case toVisualRow t row of
           (r, t1) \<Rightarrow>
             (case toVisualColumn t1 column of
                (c, t2) \<Rightarrow> Inr (JArr [r, c], t2))))"

definition toPhysicalRow ::
  "'s Core RecordTranslator \<Rightarrow> jsval \<Rightarrow> jsval \<times> 's Core RecordTranslator" where
  "toPhysicalRow t row =
     (case runHooks (hot t) ''modifyRow'' (getPhysicalIndex (rowIndexMapper t) row) of
        (v, h') \<Rightarrow> (v, t \<lparr> hot := h' \<rparr>))"

definition toPhysicalColumn ::
  "'s Core RecordTranslator \<Rightarrow> jsval \<Rightarrow> jsval \<times> 's Core RecordTranslator" where
  "toPhysicalColumn t column =
     (case runHooks (hot t) ''modifyCol'' (getPhysicalIndex (columnIndexMapper t) column) of
        (v, h') \<Rightarrow> (v, t \<lparr> hot := h' \<rparr>))"

definition toPhysical ::
  "'s Core RecordTranslator \<Rightarrow> jsval \<Rightarrow> jsval
     \<Rightarrow> js_error + (jsval \<times> 's Core RecordTranslator)" where
  "toPhysical t row column =
     (if isObject row then
        (case getProp row ''row'' of
           Inl e \<Rightarrow> Inl e
         | Inr row_row \<Rightarrow>
             (case toPhysicalRow t row_row of
                (r, t1) \<Rightarrow>
                  (case getProp row ''column'' of
                     Inl e \<Rightarrow> Inl e
                   | Inr row_column \<Rightarrow>
                       (case toPhysicalColumn t1 row_column of
                          (c, t2) \<Rightarrow> Inr (JObj [(''row'', r), (''column'', c)], t2)))))
      else
        (case toPhysicalRow t row of
           (r, t1) \<Rightarrow>
             (case toPhysicalColumn t1 column of
                (c, t2) \<Rightarrow> Inr (JArr [r, c], t2))))"

definition getSkippedRows :: "'h RecordTranslator \<Rightarrow> int list" where
  "getSkippedRows t = getSkippedIndexes (rowIndexMapper t)"

definition getSkippedColumns :: "'h RecordTranslator \<Rightarrow> int list" where
  "getSkippedColumns t = getSkippedIndexes (columnIndexMapper t)"

definition isSkippedRow :: "'h RecordTranslator \<Rightarrow> int \<Rightarrow> bool" where
  "isSkippedRow t row = isSkipped (rowIndexMapper t) row"

definition isSkippedColumn :: "'h RecordTranslator \<Rightarrow> int \<Rightarrow> bool" where
  "isSkippedColumn t column = isSkipped (columnIndexMapper t) column"

definition setSkippedRows :: "'h RecordTranslator \<Rightarrow> int list \<Rightarrow> 'h RecordTranslator" where
  "setSkippedRows t indexes =
     t \<lparr> rowIndexMapper := setSkippedIndexes (rowIndexMapper t) indexes \<rparr>"

definition setSkippedColumns :: "'h RecordTranslator \<Rightarrow> int list \<Rightarrow> 'h RecordTranslator" where
  "setSkippedColumns t indexes =
     t \<lparr> columnIndexMapper := setSkippedIndexes (columnIndexMapper t) indexes \<rparr>"

section \<open>The translator registry\<close>

text \<open>
  The registry compares objects by identity and asks whether an object is an instance of
  \<open>Core\<close>; it reads no property. A value is therefore seen here as the reference it
  is: a Core instance or another object, each named by its address, or a value that is no
  object (\<open>undefined\<close>, \<open>null\<close>, a number, a string, a boolean).
\<close>

datatype identity =
    CoreInstance nat
  | OtherObject nat
  | NonObject

fun instanceofCore :: "identity \<Rightarrow> bool" where
  "instanceofCore (CoreInstance n) = True"
| "instanceofCore v = False"

fun isObjectRef :: "identity \<Rightarrow> bool" where
  "isObjectRef NonObject = False"
| "isObjectRef v = True"

text \<open>
  A WeakMap: \<open>set\<close> throws a TypeError for a key that is no object; \<open>has\<close> and
  \<open>get\<close> find nothing for such a key. \<open>wm_get\<close> yields \<open>None\<close> exactly when
  \<open>has\<close> is false.
\<close>

type_synonym 'v WeakMap = "identity \<Rightarrow> 'v option"

definition wm_get :: "'v WeakMap \<Rightarrow> identity \<Rightarrow> 'v option" where
  "wm_get m k = (if isObjectRef k then m k else None)"

definition wm_set :: "'v WeakMap \<Rightarrow> identity \<Rightarrow> 'v \<Rightarrow> js_error + 'v WeakMap" where
  "wm_set m k v = (if isObjectRef k then Inr (m(k \<mapsto> v)) else Inl TypeError)"

text \<open>
  The module's state: the two WeakMaps \<open>identities\<close> and \<open>translatorSingletons\<close>, and
  the RecordTranslator objects created so far. A translator is named by its address, its
  position in \<open>allocated\<close>; two references are the same object when the addresses are
  equal.
\<close>

record registry =
  identities :: "identity WeakMap"
  translatorSingletons :: "nat WeakMap"
  allocated :: "identity RecordTranslator list"

definition empty_registry :: registry where
  "empty_registry = \<lparr> identities = Map.empty, translatorSingletons = Map.empty, allocated = [] \<rparr>"

definition not_registered :: js_error where
  "not_registered = Error ''Record translator was not registered for this object identity''"

definition registerIdentity :: "identity \<Rightarrow> identity \<Rightarrow> registry \<Rightarrow> js_error + registry" where
  "registerIdentity identity h s =
     (case wm_set (identities s) identity h of
        Inl e \<Rightarrow> Inl e
      | Inr m \<Rightarrow> Inr (s \<lparr> identities := m \<rparr>))"

definition getIdentity :: "identity \<Rightarrow> registry \<Rightarrow> js_error + identity" where
  "getIdentity identity s =
     (case wm_get (identities s) identity of
        None \<Rightarrow> Inl not_registered
      | Some h \<Rightarrow> Inr h)"

text \<open>The first line of \<open>getTranslator\<close>: the instance an identity stands for.\<close>

definition resolveInstance :: "identity \<Rightarrow> registry \<Rightarrow> js_error + identity" where
  "resolveInstance identity s =
     (if instanceofCore identity then Inr identity else getIdentity identity s)"

definition getTranslator :: "identity \<Rightarrow> registry \<Rightarrow> js_error + (nat \<times> registry)" where
  "getTranslator identity s =
     (case resolveInstance identity s of
        Inl e \<Rightarrow> Inl e
      | Inr instance \<Rightarrow>
          (case wm_get (translatorSingletons s) instance of
             Some singleton \<Rightarrow> Inr (singleton, s)
           | None \<Rightarrow>
               (case wm_set (translatorSingletons s) instance (length (allocated s)) of
                  Inl e \<Rightarrow> Inl e
                | Inr m \<Rightarrow>
                    Inr (length (allocated s),
                         s \<lparr> translatorSingletons := m,
                             allocated := allocated s @ [new_RecordTranslator instance] \<rparr>))))"

text \<open>
  Sequences of calls to the two exported entry points. A call that throws leaves the
  module's state as it was: every throw happens before a WeakMap is written.
\<close>

datatype call =
    RegisterIdentity identity identity
  | GetTranslator identity

fun exec :: "call \<Rightarrow> registry \<Rightarrow> registry" where
  "exec (RegisterIdentity k h) s = (case registerIdentity k h s of Inl e \<Rightarrow> s | Inr s' \<Rightarrow> s')"
| "exec (GetTranslator k) s = (case getTranslator k s of Inl e \<Rightarrow> s | Inr (a, s') \<Rightarrow> s')"

fun execs :: "call list \<Rightarrow> registry \<Rightarrow> registry" where
  "execs [] s = s"
| "execs (c # cs) s = execs cs (exec c s)"

text \<open>
  The states the module can be in keep the translators and their table in step: the
  table sends an object to an address exactly when the translator at that address was
  created for that object.
\<close>

definition registry_inv :: "registry \<Rightarrow> bool" where
  "registry_inv s \<longleftrightarrow>
     (\<forall>k a. translatorSingletons s k = Some a \<longleftrightarrow>
        (isObjectRef k \<and> a < length (allocated s) \<and> hot (allocated s ! a) = k))"

section \<open>Hosts used to run the model on concrete inputs\<close>

text \<open>
  A host whose state is the log of the hook calls made so far. Its \<open>modifyRow\<close> hook adds
  10 to a number (the hook of the spec's \<open>toPhysical(2, 1)\<close> scenario), every hook
  replaces a value that is no number by 99, and the other hooks return numbers unchanged.
\<close>

fun logging_hooks ::
  "string \<Rightarrow> jsval \<Rightarrow> (string \<times> jsval) list \<Rightarrow> jsval \<times> (string \<times> jsval) list" where
  "logging_hooks name (JNum n) log =
     (if name = ''modifyRow'' then JNum (n + 10) else JNum n, log @ [(name, JNum n)])"
| "logging_hooks name v log = (JNum 99, log @ [(name, v)])"

definition logging_host :: "(string \<times> jsval) list Core" where
  "logging_host = \<lparr> hstate = [], hooks = logging_hooks \<rparr>"

text \<open>
  The axis of the spec's scenario: five physical indexes, index 1 skipped.
\<close>

definition sample_mapper :: IndexMapper where
  "sample_mapper = \<lparr> indexOrder = [0, 1, 2, 3, 4], skipped = [1] \<rparr>"

text \<open>
  A translator for that host: the rows are the axis above, the five columns skip nothing.
\<close>

definition sample_translator :: "(string \<times> jsval) list Core RecordTranslator" where
  "sample_translator =
     \<lparr> hot = logging_host,
       rowIndexMapper = sample_mapper,
       columnIndexMapper = \<lparr> indexOrder = [0, 1, 2, 3, 4], skipped = [] \<rparr> \<rparr>"

text \<open>
  The module's state after \<open>registerIdentity(plugin, hotB)\<close> for an object \<open>plugin\<close>
  that is no Core instance; then the state after \<open>registerIdentity(hotA, hotB)\<close> for two Core instances
  \<open>hotA\<close> (address 1) and \<open>hotB\<close> (address 2), and its state after a following
  \<open>getTranslator(hotA)\<close>.
\<close>

definition plugin_key_registry :: registry where
  "plugin_key_registry =
     \<lparr> identities = [OtherObject 1 \<mapsto> CoreInstance 2],
       translatorSingletons = Map.empty,
       allocated = [] \<rparr>"

definition core_key_registry :: registry where
  "core_key_registry =
     \<lparr> identities = [CoreInstance 1 \<mapsto> CoreInstance 2],
       translatorSingletons = Map.empty,
       allocated = [] \<rparr>"

definition core_key_translated :: registry where
  "core_key_translated =
     \<lparr> identities = [CoreInstance 1 \<mapsto> CoreInstance 2],
       translatorSingletons = [CoreInstance 1 \<mapsto> 0],
       allocated = [new_RecordTranslator (CoreInstance 1)] \<rparr>"

section \<open>Single-axis translation\<close>

text \<open>
  C1. For every input, \<open>toVisualRow\<close> returns what the host's hook \<open>unmodifyRow\<close> returns
  on the row mapper's \<open>getVisualIndex\<close> result, \<open>toVisualColumn\<close> what \<open>unmodifyCol\<close>
  returns on the column mapper's \<open>getVisualIndex\<close> result, \<open>toPhysicalRow\<close> what
  \<open>modifyRow\<close> returns on the row mapper's \<open>getPhysicalIndex\<close> result and
  \<open>toPhysicalColumn\<close> what \<open>modifyCol\<close> returns on the column mapper's
  \<open>getPhysicalIndex\<close> result; the hook's value is the final result, and the only thing
  that changes is the host's state, by that one hook call.
\<close>

theorem translate_axis_is_hook_of_mapper:
  "toVisualRow t row =
     (fst (runHooks (hot t) ''unmodifyRow'' (getVisualIndex (rowIndexMapper t) row)),
      t \<lparr> hot := snd (runHooks (hot t) ''unmodifyRow'' (getVisualIndex (rowIndexMapper t) row)) \<rparr>)
   \<and> toVisualColumn t column =
     (fst (runHooks (hot t) ''unmodifyCol'' (getVisualIndex (columnIndexMapper t) column)),
      t \<lparr> hot := snd (runHooks (hot t) ''unmodifyCol'' (getVisualIndex (columnIndexMapper t) column)) \<rparr>)
   \<and> toPhysicalRow t row =
     (fst (runHooks (hot t) ''modifyRow'' (getPhysicalIndex (rowIndexMapper t) row)),
      t \<lparr> hot := snd (runHooks (hot t) ''modifyRow'' (getPhysicalIndex (rowIndexMapper t) row)) \<rparr>)
   \<and> toPhysicalColumn t column =
     (fst (runHooks (hot t) ''modifyCol'' (getPhysicalIndex (columnIndexMapper t) column)),
      t \<lparr> hot := snd (runHooks (hot t) ''modifyCol'' (getPhysicalIndex (columnIndexMapper t) column)) \<rparr>)"
  by (simp add: toVisualRow_def toVisualColumn_def toPhysicalRow_def toPhysicalColumn_def
      split: prod.split)

text \<open>
  The four methods on the sample translator: one hook call each, with the hook's name and
  the mapper's result, as the host's log shows.
\<close>

lemma translate_axis_run:
  "toVisualRow sample_translator (JNum 3) =
     (JNum 2, sample_translator \<lparr> hot := logging_host \<lparr> hstate := [(''unmodifyRow'', JNum 2)] \<rparr> \<rparr>)"
  "toVisualColumn sample_translator (JNum 3) =
     (JNum 3, sample_translator \<lparr> hot := logging_host \<lparr> hstate := [(''unmodifyCol'', JNum 3)] \<rparr> \<rparr>)"
  "toPhysicalRow sample_translator (JNum 2) =
     (JNum 13, sample_translator \<lparr> hot := logging_host \<lparr> hstate := [(''modifyRow'', JNum 3)] \<rparr> \<rparr>)"
  "toPhysicalColumn sample_translator (JNum 2) =
     (JNum 2, sample_translator \<lparr> hot := logging_host \<lparr> hstate := [(''modifyCol'', JNum 2)] \<rparr> \<rparr>)"
  by (simp_all add: toVisualRow_def toVisualColumn_def toPhysicalRow_def toPhysicalColumn_def
      sample_translator_def sample_mapper_def visualOrder_def runHooks_def logging_host_def)

text \<open>
  C9. When the mapper returns the unmapped sentinel (a skipped or out-of-range index),
  \<open>toVisualRow\<close>, \<open>toVisualColumn\<close>, \<open>toPhysicalRow\<close> and \<open>toPhysicalColumn\<close> still
  run the corresponding hook, on that sentinel, and return what the hook yields: the
  result for an unmapped index is the hook's, it is not fixed to the sentinel.
\<close>

theorem unmapped_is_passed_to_hook:
  "(getVisualIndex (rowIndexMapper t) row = unmapped \<longrightarrow>
      toVisualRow t row =
        (fst (runHooks (hot t) ''unmodifyRow'' unmapped),
         t \<lparr> hot := snd (runHooks (hot t) ''unmodifyRow'' unmapped) \<rparr>))
   \<and> (getVisualIndex (columnIndexMapper t) column = unmapped \<longrightarrow>
      toVisualColumn t column =
        (fst (runHooks (hot t) ''unmodifyCol'' unmapped),
         t \<lparr> hot := snd (runHooks (hot t) ''unmodifyCol'' unmapped) \<rparr>))
   \<and> (getPhysicalIndex (rowIndexMapper t) row' = unmapped \<longrightarrow>
      toPhysicalRow t row' =
        (fst (runHooks (hot t) ''modifyRow'' unmapped),
         t \<lparr> hot := snd (runHooks (hot t) ''modifyRow'' unmapped) \<rparr>))
   \<and> (getPhysicalIndex (columnIndexMapper t) column' = unmapped \<longrightarrow>
      toPhysicalColumn t column' =
        (fst (runHooks (hot t) ''modifyCol'' unmapped),
         t \<lparr> hot := snd (runHooks (hot t) ''modifyCol'' unmapped) \<rparr>))"
  by (simp add: toVisualRow_def toVisualColumn_def toPhysicalRow_def toPhysicalColumn_def
      split: prod.split)

text \<open>
  On the sample translator: row 1 is skipped, column 7 and the visual indexes 4 and 5 are
  out of range. Each hook is called with the sentinel (the host's log shows the call) and
  its answer 99, not the sentinel, is the result.
\<close>

theorem unmapped_is_passed_to_hook_witness:
  "getVisualIndex (rowIndexMapper sample_translator) (JNum 1) = unmapped
   \<and> toVisualRow sample_translator (JNum 1) =
       (JNum 99, sample_translator \<lparr> hot := logging_host \<lparr> hstate := [(''unmodifyRow'', unmapped)] \<rparr> \<rparr>)
   \<and> getVisualIndex (columnIndexMapper sample_translator) (JNum 7) = unmapped
   \<and> toVisualColumn sample_translator (JNum 7) =
       (JNum 99, sample_translator \<lparr> hot := logging_host \<lparr> hstate := [(''unmodifyCol'', unmapped)] \<rparr> \<rparr>)
   \<and> getPhysicalIndex (rowIndexMapper sample_translator) (JNum 4) = unmapped
   \<and> toPhysicalRow sample_translator (JNum 4) =
       (JNum 99, sample_translator \<lparr> hot := logging_host \<lparr> hstate := [(''modifyRow'', unmapped)] \<rparr> \<rparr>)
   \<and> getPhysicalIndex (columnIndexMapper sample_translator) (JNum 5) = unmapped
   \<and> toPhysicalColumn sample_translator (JNum 5) =
       (JNum 99, sample_translator \<lparr> hot := logging_host \<lparr> hstate := [(''modifyCol'', unmapped)] \<rparr> \<rparr>)
   \<and> JNum 99 \<noteq> unmapped"
  using unmapped_is_passed_to_hook
    [of sample_translator "JNum 1" "JNum 7" "JNum 4" "JNum 5"]
  by (simp add: sample_translator_def sample_mapper_def visualOrder_def runHooks_def
      logging_host_def unmapped_def)

section \<open>Coordinate translation\<close>

lemma toVisual_scalar:
  "\<not> isObject row \<Longrightarrow>
   toVisual t row column =
     Inr (JArr [fst (toVisualRow t row), fst (toVisualColumn (snd (toVisualRow t row)) column)],
          snd (toVisualColumn (snd (toVisualRow t row)) column))"
  by (simp add: toVisual_def split: prod.split)

lemma toPhysical_scalar:
  "\<not> isObject row \<Longrightarrow>
   toPhysical t row column =
     Inr (JArr [fst (toPhysicalRow t row),
                fst (toPhysicalColumn (snd (toPhysicalRow t row)) column)],
          snd (toPhysicalColumn (snd (toPhysicalRow t row)) column))"
  by (simp add: toPhysical_def split: prod.split)

lemma toVisual_object:
  "toVisual t (JObj ps) column =
     Inr (JObj [(''row'', fst (toVisualRow t (ownProperty ps ''row''))),
                (''column'', fst (toVisualColumn (snd (toVisualRow t (ownProperty ps ''row'')))
                                   (ownProperty ps ''column'')))],
          snd (toVisualColumn (snd (toVisualRow t (ownProperty ps ''row'')))
                 (ownProperty ps ''column'')))"
  by (simp add: toVisual_def split: prod.split)

lemma toPhysical_object:
  "toPhysical t (JObj ps) column =
     Inr (JObj [(''row'', fst (toPhysicalRow t (ownProperty ps ''row''))),
                (''column'', fst (toPhysicalColumn (snd (toPhysicalRow t (ownProperty ps ''row'')))
                                   (ownProperty ps ''column'')))],
          snd (toPhysicalColumn (snd (toPhysicalRow t (ownProperty ps ''row'')))
                 (ownProperty ps ''column'')))"
  by (simp add: toPhysical_def split: prod.split)

lemma coordinate_properties:
  "ownProperty [(''row'', r), (''column'', c)] ''row'' = r"
  "ownProperty [(''row'', r), (''column'', c)] ''column'' = c"
  by (simp_all add: ownProperty_def)

text \<open>
  C2. For every row index \<open>r\<close> and column \<open>c\<close>, \<open>toVisual(r, c)\<close> returns the
  two-element array of \<open>toVisualRow(r)\<close> and \<open>toVisualColumn(c)\<close>, and
  \<open>toVisual({row: r, column: c})\<close> returns an object whose \<open>row\<close> and \<open>column\<close>
  fields hold those same two values; the same holds of the two call shapes of
  \<open>toPhysical\<close>. A hook sees the hook's name, the value and the host's state, nothing of
  the call shape; both shapes run the row hook first, then the column hook, and leave the
  host in the same state.
\<close>

theorem call_shapes_agree:
  "toVisual t (JNum r) c =
     Inr (JArr [fst (toVisualRow t (JNum r)),
                fst (toVisualColumn (snd (toVisualRow t (JNum r))) c)],
          snd (toVisualColumn (snd (toVisualRow t (JNum r))) c))
   \<and> toVisual t (JObj [(''row'', JNum r), (''column'', c)]) second =
     Inr (JObj [(''row'', fst (toVisualRow t (JNum r))),
                (''column'', fst (toVisualColumn (snd (toVisualRow t (JNum r))) c))],
          snd (toVisualColumn (snd (toVisualRow t (JNum r))) c))
   \<and> toPhysical t (JNum r) c =
     Inr (JArr [fst (toPhysicalRow t (JNum r)),
                fst (toPhysicalColumn (snd (toPhysicalRow t (JNum r))) c)],
          snd (toPhysicalColumn (snd (toPhysicalRow t (JNum r))) c))
   \<and> toPhysical t (JObj [(''row'', JNum r), (''column'', c)]) second =
     Inr (JObj [(''row'', fst (toPhysicalRow t (JNum r))),
                (''column'', fst (toPhysicalColumn (snd (toPhysicalRow t (JNum r))) c))],
          snd (toPhysicalColumn (snd (toPhysicalRow t (JNum r))) c))"
  by (simp add: toVisual_scalar toPhysical_scalar toVisual_object toPhysical_object
      coordinate_properties)

text \<open>
  The spec's scenario \<open>toPhysical(2, 1)\<close> with a hook adding 10 to every modified row, on
  the sample translator (row 1 skipped, so that visual row 2 is physical row 3), in both
  call shapes.
\<close>

lemma toPhysical_scenario:
  "toPhysical sample_translator (JNum 2) (JNum 1) =
     Inr (JArr [JNum 13, JNum 1],
          sample_translator \<lparr> hot := logging_host \<lparr> hstate :=
            [(''modifyRow'', JNum 3), (''modifyCol'', JNum 1)] \<rparr> \<rparr>)"
  "toPhysical sample_translator (JObj [(''row'', JNum 2), (''column'', JNum 1)]) JUndefined =
     Inr (JObj [(''row'', JNum 13), (''column'', JNum 1)],
          sample_translator \<lparr> hot := logging_host \<lparr> hstate :=
            [(''modifyRow'', JNum 3), (''modifyCol'', JNum 1)] \<rparr> \<rparr>)"
  by (simp_all add: toPhysical_def toPhysicalRow_def toPhysicalColumn_def sample_translator_def
      sample_mapper_def visualOrder_def runHooks_def logging_host_def ownProperty_def)

text \<open>
  C7, as amended. The dispatch tests \<open>isObject\<close> and nothing else. For every first
  argument that is not object-like, \<open>toVisual\<close> and \<open>toPhysical\<close> take the scalar-pair
  form, with the first argument as the row and the second as the column, and return the
  two-element array. Every object-like first argument, a coordinate pair or not, takes
  the coordinate form: an absent \<open>row\<close> or \<open>column\<close> key is read as \<open>undefined\<close> and
  the second argument is ignored. The dispatch raises no exception in either case.
\<close>

theorem shape_dispatch_by_isObject:
  "(\<not> isObject row \<longrightarrow>
      toVisual t row column =
        Inr (JArr [fst (toVisualRow t row),
                   fst (toVisualColumn (snd (toVisualRow t row)) column)],
             snd (toVisualColumn (snd (toVisualRow t row)) column))
      \<and> toPhysical t row column =
        Inr (JArr [fst (toPhysicalRow t row),
                   fst (toPhysicalColumn (snd (toPhysicalRow t row)) column)],
             snd (toPhysicalColumn (snd (toPhysicalRow t row)) column)))
   \<and> (isObject row \<longrightarrow>
      (\<exists>ps. row = JObj ps
        \<and> toVisual t row column =
            Inr (JObj [(''row'', fst (toVisualRow t (ownProperty ps ''row''))),
                       (''column'', fst (toVisualColumn (snd (toVisualRow t (ownProperty ps ''row'')))
                                          (ownProperty ps ''column'')))],
                 snd (toVisualColumn (snd (toVisualRow t (ownProperty ps ''row'')))
                        (ownProperty ps ''column'')))
        \<and> toPhysical t row column =
            Inr (JObj [(''row'', fst (toPhysicalRow t (ownProperty ps ''row''))),
                       (''column'', fst (toPhysicalColumn (snd (toPhysicalRow t (ownProperty ps ''row'')))
                                          (ownProperty ps ''column'')))],
                 snd (toPhysicalColumn (snd (toPhysicalRow t (ownProperty ps ''row'')))
                        (ownProperty ps ''column'')))))
   \<and> (\<exists>res. toVisual t row column = Inr res)
   \<and> (\<exists>res. toPhysical t row column = Inr res)"
proof (cases "isObject row")
  case False
  then show ?thesis
    by (simp add: toVisual_scalar toPhysical_scalar)
next
  case True
  then obtain ps where "row = JObj ps"
    by (cases row) simp_all
  then show ?thesis
    by (simp add: toVisual_object toPhysical_object)
qed

text \<open>
  On the sample translator: \<open>null\<close> as first argument gives the array of the row hook's
  answer for the sentinel and of column 3.
\<close>

theorem shape_dispatch_by_isObject_witness:
  "\<not> isObject JNull
   \<and> toVisual sample_translator JNull (JNum 3) =
       Inr (JArr [JNum 99, JNum 3],
            sample_translator \<lparr> hot := logging_host \<lparr> hstate :=
              [(''unmodifyRow'', JUndefined), (''unmodifyCol'', JNum 3)] \<rparr> \<rparr>)
   \<and> toPhysical sample_translator JNull (JNum 3) =
       Inr (JArr [JNum 99, JNum 3],
            sample_translator \<lparr> hot := logging_host \<lparr> hstate :=
              [(''modifyRow'', JUndefined), (''modifyCol'', JNum 3)] \<rparr> \<rparr>)"
  using shape_dispatch_by_isObject [of JNull sample_translator "JNum 3"]
  by (simp add: toVisualRow_def toVisualColumn_def toPhysicalRow_def toPhysicalColumn_def
      sample_translator_def sample_mapper_def visualOrder_def runHooks_def logging_host_def
      unmapped_def)

text \<open>
  C7 as stated fails: the empty object \<open>{}\<close> is no coordinate pair, and
  \<open>toVisual({}, 3)\<close> is not the scalar-pair result \<open>[toVisualRow({}), toVisualColumn(3)]\<close>,
  which here would be \<open>[99, 3]\<close>. It is the coordinate object built from the two absent
  keys, and column 3 is never translated.
\<close>

theorem malformed_object_takes_coordinate_form:
  "isObject (JObj [])
   \<and> toVisual sample_translator (JObj []) (JNum 3) =
       Inr (JObj [(''row'', JNum 99), (''column'', JNum 99)],
            sample_translator \<lparr> hot := logging_host \<lparr> hstate :=
              [(''unmodifyRow'', JUndefined), (''unmodifyCol'', JUndefined)] \<rparr> \<rparr>)
   \<and> toVisual sample_translator (JObj []) (JNum 3) \<noteq>
       Inr (JArr [fst (toVisualRow sample_translator (JObj [])),
                  fst (toVisualColumn (snd (toVisualRow sample_translator (JObj []))) (JNum 3))],
            snd (toVisualColumn (snd (toVisualRow sample_translator (JObj []))) (JNum 3)))"
  by (simp add: toVisual_def toVisualRow_def toVisualColumn_def sample_translator_def
      sample_mapper_def visualOrder_def runHooks_def logging_host_def unmapped_def
      ownProperty_def)

section \<open>Skipped indexes\<close>

text \<open>
  C8. \<open>getSkippedRows\<close>, \<open>isSkippedRow\<close> and \<open>setSkippedRows\<close> pass through to the row
  mapper's \<open>getSkippedIndexes\<close>, \<open>isSkipped\<close> and \<open>setSkippedIndexes\<close>, and the three
  column methods to the column mapper's: each getter returns the delegated call's result,
  each setter hands its argument on unchanged, and nothing else of the translator (the
  other mapper, the host) changes.
\<close>

theorem skipped_methods_pass_through:
  "getSkippedRows t = getSkippedIndexes (rowIndexMapper t)
   \<and> getSkippedColumns t = getSkippedIndexes (columnIndexMapper t)
   \<and> isSkippedRow t r = isSkipped (rowIndexMapper t) r
   \<and> isSkippedColumn t c = isSkipped (columnIndexMapper t) c
   \<and> setSkippedRows t list =
       t \<lparr> rowIndexMapper := setSkippedIndexes (rowIndexMapper t) list \<rparr>
   \<and> setSkippedColumns t list =
       t \<lparr> columnIndexMapper := setSkippedIndexes (columnIndexMapper t) list \<rparr>"
  by (simp add: getSkippedRows_def getSkippedColumns_def isSkippedRow_def isSkippedColumn_def
      setSkippedRows_def setSkippedColumns_def)

section \<open>IndexMapper: the round trip\<close>

lemma indexOf_Some: "indexOf xs p = Some i \<Longrightarrow> i < length xs \<and> xs ! i = p"
  by (induction xs arbitrary: i) (auto split: if_splits option.splits)

lemma indexOf_None: "indexOf xs p = None \<longleftrightarrow> p \<notin> set xs"
  by (induction xs) (auto split: option.splits)

lemma getVisualIndex_skipped: "isSkipped m p \<Longrightarrow> getVisualIndex m (JNum p) = unmapped"
  by (simp add: indexOf_None[THEN iffD2] visualOrder_def isSkipped_def)

lemma getVisualIndex_unknown: "p \<notin> set (indexOrder m) \<Longrightarrow> getVisualIndex m (JNum p) = unmapped"
  by (simp add: indexOf_None[THEN iffD2] visualOrder_def)

lemma getPhysicalIndex_out_of_range:
  "i < 0 \<or> int (length (visualOrder m)) \<le> i \<Longrightarrow> getPhysicalIndex m (JNum i) = unmapped"
  by auto

text \<open>
  The spec's scenario: five physical indexes, none skipped, then index 1 skipped.
\<close>

lemma index_mapper_scenario:
  "getVisualIndex (setSkippedIndexes sample_mapper []) (JNum 3) = JNum 3"
  "getVisualIndex sample_mapper (JNum 1) = unmapped"
  "getVisualIndex sample_mapper (JNum 3) = JNum 2"
  "getPhysicalIndex sample_mapper (JNum 2) = JNum 3"
  by (simp_all add: sample_mapper_def setSkippedIndexes_def visualOrder_def)

text \<open>
  C3. For every physical index \<open>p\<close> that is within the axis range and not skipped,
  \<open>getPhysicalIndex(getVisualIndex(p)) == p\<close>.
\<close>

theorem index_round_trip:
  assumes "p \<in> set (indexOrder m)" and "\<not> isSkipped m p"
  shows "getPhysicalIndex m (getVisualIndex m (JNum p)) = JNum p"
proof (cases "indexOf (visualOrder m) p")
  case None
  then have "p \<notin> set (visualOrder m)"
    by (simp add: indexOf_None)
  with assms show ?thesis
    by (simp add: visualOrder_def isSkipped_def)
next
  case (Some i)
  then have "i < length (visualOrder m) \<and> visualOrder m ! i = p"
    by (rule indexOf_Some)
  with Some show ?thesis
    by simp
qed

theorem index_round_trip_witness:
  "3 \<in> set (indexOrder sample_mapper) \<and> \<not> isSkipped sample_mapper 3
   \<and> getVisualIndex sample_mapper (JNum 3) = JNum 2
   \<and> getPhysicalIndex sample_mapper (getVisualIndex sample_mapper (JNum 3)) = JNum 3"
  using index_round_trip [of 3 sample_mapper]
  by (simp add: sample_mapper_def isSkipped_def visualOrder_def)

section \<open>The registry: what a call changes\<close>

lemma resolveInstance_Core: "instanceofCore h \<Longrightarrow> resolveInstance h s = Inr h"
  by (simp add: resolveInstance_def)

lemma instanceofCore_object: "instanceofCore h \<Longrightarrow> isObjectRef h"
  by (cases h) simp_all

lemma resolveInstance_registered:
  "\<not> instanceofCore k \<Longrightarrow> wm_get (identities s) k = Some h \<Longrightarrow> resolveInstance k s = Inr h"
  by (simp add: resolveInstance_def getIdentity_def)

lemma registerIdentity_get:
  "registerIdentity k h s = Inr s' \<Longrightarrow> wm_get (identities s') k = Some h"
  by (auto simp: registerIdentity_def wm_set_def wm_get_def split: if_splits)

lemma registerIdentity_keeps:
  "registerIdentity k' h' s = Inr s' \<Longrightarrow> wm_get (identities s) k = Some h \<Longrightarrow> h' = h \<Longrightarrow>
   wm_get (identities s') k = Some h"
  by (auto simp: registerIdentity_def wm_set_def wm_get_def split: if_splits)

lemma getTranslator_unregistered:
  "\<not> instanceofCore k \<Longrightarrow> wm_get (identities s) k = None \<Longrightarrow>
   getTranslator k s = Inl not_registered"
  by (simp add: getTranslator_def resolveInstance_def getIdentity_def)

lemma getTranslator_found:
  "resolveInstance k s = Inr h \<Longrightarrow> isObjectRef h \<Longrightarrow> translatorSingletons s h = Some a \<Longrightarrow>
   getTranslator k s = Inr (a, s)"
  by (simp add: getTranslator_def wm_get_def)

lemma getTranslator_fresh:
  "resolveInstance k s = Inr h \<Longrightarrow> isObjectRef h \<Longrightarrow> translatorSingletons s h = None \<Longrightarrow>
   getTranslator k s =
     Inr (length (allocated s),
          s \<lparr> translatorSingletons := (translatorSingletons s)(h \<mapsto> length (allocated s)),
              allocated := allocated s @ [new_RecordTranslator h] \<rparr>)"
  by (simp add: getTranslator_def wm_get_def wm_set_def)

lemma getTranslator_cases:
  assumes "getTranslator k s = Inr (a, s')"
  obtains h where "resolveInstance k s = Inr h" "isObjectRef h"
      "translatorSingletons s h = Some a" "s' = s"
  | h where "resolveInstance k s = Inr h" "isObjectRef h" "translatorSingletons s h = None"
      "a = length (allocated s)"
      "s' = s \<lparr> translatorSingletons := (translatorSingletons s)(h \<mapsto> length (allocated s)),
              allocated := allocated s @ [new_RecordTranslator h] \<rparr>"
proof (cases "resolveInstance k s")
  case (Inl e)
  with assms show ?thesis by (simp add: getTranslator_def)
next
  case (Inr h)
  show ?thesis
  proof (cases "isObjectRef h")
    case False
    with assms Inr show ?thesis by (simp add: getTranslator_def wm_get_def wm_set_def)
  next
    case True
    show ?thesis
    proof (cases "translatorSingletons s h")
      case None
      from assms have "a = length (allocated s)"
        and "s' = s \<lparr> translatorSingletons := (translatorSingletons s)(h \<mapsto> length (allocated s)),
              allocated := allocated s @ [new_RecordTranslator h] \<rparr>"
        by (auto simp add: getTranslator_fresh[OF Inr True None])
      with Inr True None that(2) show ?thesis by blast
    next
      case (Some b)
      from assms have "b = a" and "s' = s"
        by (auto simp add: getTranslator_found[OF Inr True Some])
      with Inr True Some that(1) show ?thesis by blast
    qed
  qed
qed

lemma getTranslator_total:
  assumes "resolveInstance k s = Inr h" and "isObjectRef h"
  shows "\<exists>a s1. getTranslator k s = Inr (a, s1) \<and> translatorSingletons s1 h = Some a
            \<and> identities s1 = identities s
            \<and> (translatorSingletons s h = None \<longrightarrow>
                 a = length (allocated s)
                 \<and> allocated s1 = allocated s @ [new_RecordTranslator h])"
proof (cases "translatorSingletons s h")
  case None
  show ?thesis
    by (simp add: getTranslator_fresh[OF assms None])
next
  case (Some a)
  show ?thesis
    by (simp add: getTranslator_found[OF assms Some] Some)
qed

lemma identities_getTranslator:
  assumes "getTranslator k s = Inr (a, s')"
  shows "identities s' = identities s"
  using assms by (cases rule: getTranslator_cases) simp_all

lemma identities_exec:
  "\<forall>h. c \<noteq> RegisterIdentity k h \<Longrightarrow> wm_get (identities (exec c s)) k = wm_get (identities s) k"
  by (cases c)
     (auto simp: registerIdentity_def wm_set_def wm_get_def identities_getTranslator
           split: sum.splits if_splits)

lemma identities_execs:
  "\<forall>h. RegisterIdentity k h \<notin> set cs \<Longrightarrow>
   wm_get (identities (execs cs s)) k = wm_get (identities s) k"
proof (induction cs arbitrary: s)
  case Nil
  then show ?case by simp
next
  case (Cons c cs)
  have "wm_get (identities (exec c s)) k = wm_get (identities s) k"
    using Cons.prems by (intro identities_exec) auto
  moreover have "wm_get (identities (execs cs (exec c s))) k = wm_get (identities (exec c s)) k"
    using Cons.prems by (intro Cons.IH) auto
  ultimately show ?case by simp
qed

subsection \<open>The translators and their table stay in step\<close>

lemma registry_inv_empty: "registry_inv empty_registry"
  by (simp add: registry_inv_def empty_registry_def)

lemma registry_inv_register:
  "registry_inv s \<Longrightarrow> registerIdentity k h s = Inr s' \<Longrightarrow> registry_inv s'"
  by (auto simp: registerIdentity_def wm_set_def registry_inv_def split: if_splits)

lemma registry_inv_getTranslator:
  assumes "registry_inv s" and "getTranslator k s = Inr (a, s')"
  shows "registry_inv s'"
  using assms(2)
proof (cases rule: getTranslator_cases)
  case (1 h)
  with assms(1) show ?thesis by simp
next
  case (2 h)
  have inv: "\<And>k' b. translatorSingletons s k' = Some b \<longleftrightarrow>
          (isObjectRef k' \<and> b < length (allocated s) \<and> hot (allocated s ! b) = k')"
    using assms(1) by (simp add: registry_inv_def)
  have none: "hot (allocated s ! b) \<noteq> h" if "b < length (allocated s)" for b
  proof
    assume "hot (allocated s ! b) = h"
    with that 2(2) have "translatorSingletons s h = Some b" by (simp add: inv)
    with 2(3) show False by simp
  qed
  show ?thesis
    unfolding registry_inv_def
  proof (intro allI)
    fix k' b
    show "translatorSingletons s' k' = Some b \<longleftrightarrow>
          (isObjectRef k' \<and> b < length (allocated s') \<and> hot (allocated s' ! b) = k')"
    proof (cases "b < length (allocated s)")
      case True
      with none[OF True] show ?thesis
        by (auto simp: 2(5) inv nth_append)
    next
      case False
      with 2(2) show ?thesis
        by (auto simp: 2(5) inv nth_append new_RecordTranslator_def)
    qed
  qed
qed

lemma registry_inv_exec: "registry_inv s \<Longrightarrow> registry_inv (exec c s)"
  by (cases c)
     (auto split: sum.splits intro: registry_inv_register registry_inv_getTranslator)

lemma registry_inv_execs: "registry_inv s \<Longrightarrow> registry_inv (execs cs s)"
  by (induction cs arbitrary: s) (simp_all add: registry_inv_exec)

lemma singleton_kept_exec:
  assumes "translatorSingletons s h = Some a"
  shows "translatorSingletons (exec c s) h = Some a"
proof (cases c)
  case (RegisterIdentity k h')
  with assms show ?thesis
    by (auto simp: registerIdentity_def wm_set_def split: sum.splits if_splits)
next
  case (GetTranslator k)
  show ?thesis
  proof (cases "getTranslator k s")
    case (Inl e)
    with assms show ?thesis by (simp add: GetTranslator)
  next
    case (Inr r)
    obtain b s' where r: "r = (b, s')" by (cases r)
    from Inr[unfolded r] assms show ?thesis
      by (cases rule: getTranslator_cases) (auto simp: GetTranslator Inr r)
  qed
qed

lemma singleton_kept_execs:
  "translatorSingletons s h = Some a \<Longrightarrow> translatorSingletons (execs cs s) h = Some a"
  by (induction cs arbitrary: s) (simp_all add: singleton_kept_exec)

section \<open>The registry: unregistered identities\<close>

text \<open>
  C4. An identity that was never passed to \<open>registerIdentity\<close> and is not itself a Core
  instance makes \<open>getTranslator\<close> raise the "not registered" error, whatever calls were
  made before; no default translator is returned. (A value that is no object cannot be
  registered at all, so for it the error is raised after any calls.)
\<close>

theorem unregistered_identity_raises:
  assumes "\<not> instanceofCore identity"
    and "isObjectRef identity \<longrightarrow> (\<forall>h. RegisterIdentity identity h \<notin> set calls)"
  shows "getTranslator identity (execs calls empty_registry) = Inl not_registered"
proof -
  have "wm_get (identities (execs calls empty_registry)) identity = None"
  proof (cases "isObjectRef identity")
    case True
    with assms(2) have "\<forall>h. RegisterIdentity identity h \<notin> set calls"
      by simp
    then have "wm_get (identities (execs calls empty_registry)) identity
                 = wm_get (identities empty_registry) identity"
      by (rule identities_execs)
    then show ?thesis
      by (simp add: wm_get_def empty_registry_def)
  next
    case False
    then show ?thesis
      by (simp add: wm_get_def)
  qed
  with assms(1) show ?thesis
    by (rule getTranslator_unregistered)
qed

theorem unregistered_identity_raises_witness:
  "\<not> instanceofCore (OtherObject 7)
   \<and> (\<forall>h. RegisterIdentity (OtherObject 7) h \<notin>
          set [RegisterIdentity (OtherObject 1) (CoreInstance 2), GetTranslator (OtherObject 1)])
   \<and> getTranslator (OtherObject 7)
       (execs [RegisterIdentity (OtherObject 1) (CoreInstance 2), GetTranslator (OtherObject 1)]
          empty_registry) =
       Inl (Error ''Record translator was not registered for this object identity'')"
  using unregistered_identity_raises
    [of "OtherObject 7"
        "[RegisterIdentity (OtherObject 1) (CoreInstance 2), GetTranslator (OtherObject 1)]"]
  by (simp add: not_registered_def)

section \<open>The registry: one translator per host\<close>

text \<open>
  C5. For every host instance, in every state the module can reach: \<open>getTranslator\<close>
  for that host returns a translator; when the host has none yet (the first call for it),
  a new RecordTranslator is created for it; and after that call, whatever calls follow,
  every \<open>getTranslator\<close> call that resolves to the same host returns that same object and
  changes nothing, and no other translator with that host exists.
\<close>

theorem getTranslator_caches_per_host:
  assumes core: "instanceofCore h" and s: "s = execs before empty_registry"
  shows "\<exists>a s1. getTranslator h s = Inr (a, s1)
     \<and> (translatorSingletons s h = None \<longrightarrow>
          a = length (allocated s) \<and> allocated s1 = allocated s @ [new_RecordTranslator h])
     \<and> (\<forall>later k. resolveInstance k (execs later s1) = Inr h \<longrightarrow>
          getTranslator k (execs later s1) = Inr (a, execs later s1))
     \<and> (\<forall>later i. i < length (allocated (execs later s1))
            \<and> hot (allocated (execs later s1) ! i) = h \<longrightarrow> i = a)"
proof -
  have obj: "isObjectRef h" using core by (rule instanceofCore_object)
  have inv: "registry_inv s"
    unfolding s by (intro registry_inv_execs registry_inv_empty)
  obtain a s1 where g: "getTranslator h s = Inr (a, s1)"
    and a: "translatorSingletons s1 h = Some a"
    and fresh: "translatorSingletons s h = None \<longrightarrow>
                 a = length (allocated s) \<and> allocated s1 = allocated s @ [new_RecordTranslator h]"
    using getTranslator_total[OF resolveInstance_Core[OF core] obj, of s] by auto
  have inv1: "registry_inv s1" using inv g by (rule registry_inv_getTranslator)
  have later_a: "translatorSingletons (execs later s1) h = Some a" for later
    using a by (rule singleton_kept_execs)
  have same: "getTranslator k (execs later s1) = Inr (a, execs later s1)"
    if "resolveInstance k (execs later s1) = Inr h" for later k
    using that obj later_a by (rule getTranslator_found)
  have only: "i = a"
    if "i < length (allocated (execs later s1)) \<and> hot (allocated (execs later s1) ! i) = h"
    for later i
  proof -
    have "registry_inv (execs later s1)" using inv1 by (rule registry_inv_execs)
    with that obj have "translatorSingletons (execs later s1) h = Some i"
      by (simp add: registry_inv_def)
    with later_a[of later] show ?thesis by simp
  qed
  show ?thesis
  proof (intro exI conjI allI impI)
    show "getTranslator h s = Inr (a, s1)" by (rule g)
    show "a = length (allocated s)" if "translatorSingletons s h = None"
      using fresh that by simp
    show "allocated s1 = allocated s @ [new_RecordTranslator h]"
      if "translatorSingletons s h = None"
      using fresh that by simp
    show "getTranslator k (execs later s1) = Inr (a, execs later s1)"
      if "resolveInstance k (execs later s1) = Inr h" for later k
      using that by (rule same)
    show "i = a"
      if "i < length (allocated (execs later s1)) \<and> hot (allocated (execs later s1) ! i) = h"
      for later i
      using that by (rule only)
  qed
qed

theorem getTranslator_caches_per_host_witness:
  "instanceofCore (CoreInstance 1) \<and> empty_registry = execs [] empty_registry
   \<and> (\<exists>a s1. getTranslator (CoreInstance 1) empty_registry = Inr (a, s1)
     \<and> (translatorSingletons empty_registry (CoreInstance 1) = None \<longrightarrow>
          a = length (allocated empty_registry)
          \<and> allocated s1 = allocated empty_registry @ [new_RecordTranslator (CoreInstance 1)])
     \<and> (\<forall>later k. resolveInstance k (execs later s1) = Inr (CoreInstance 1) \<longrightarrow>
          getTranslator k (execs later s1) = Inr (a, execs later s1))
     \<and> (\<forall>later i. i < length (allocated (execs later s1))
            \<and> hot (allocated (execs later s1) ! i) = CoreInstance 1 \<longrightarrow> i = a))"
  using getTranslator_caches_per_host [of "CoreInstance 1" empty_registry "[]"]
  by simp

text \<open>
  The first three calls of a run, evaluated: \<open>getTranslator(hot)\<close> creates the translator
  at address 0; after \<open>registerIdentity(plugin, hot)\<close>, \<open>getTranslator(plugin)\<close> and
  \<open>getTranslator(hot)\<close> return address 0 again and create nothing.
\<close>

lemma getTranslator_run:
  "getTranslator (CoreInstance 1) empty_registry =
     Inr (0, empty_registry \<lparr> translatorSingletons := [CoreInstance 1 \<mapsto> 0],
                              allocated := [new_RecordTranslator (CoreInstance 1)] \<rparr>)"
  "getTranslator (OtherObject 5)
     (execs [GetTranslator (CoreInstance 1), RegisterIdentity (OtherObject 5) (CoreInstance 1)]
        empty_registry) =
     Inr (0, \<lparr> identities = [OtherObject 5 \<mapsto> CoreInstance 1],
               translatorSingletons = [CoreInstance 1 \<mapsto> 0],
               allocated = [new_RecordTranslator (CoreInstance 1)] \<rparr>)"
  "getTranslator (CoreInstance 1)
     (execs [GetTranslator (CoreInstance 1), RegisterIdentity (OtherObject 5) (CoreInstance 1),
             GetTranslator (OtherObject 5)]
        empty_registry) =
     Inr (0, \<lparr> identities = [OtherObject 5 \<mapsto> CoreInstance 1],
               translatorSingletons = [CoreInstance 1 \<mapsto> 0],
               allocated = [new_RecordTranslator (CoreInstance 1)] \<rparr>)"
  by (simp_all add: getTranslator_def resolveInstance_def getIdentity_def registerIdentity_def
      wm_get_def wm_set_def empty_registry_def)

section \<open>The registry: registered keys\<close>

text \<open>
  C6, as amended. For every key that is not itself a Core instance and every host that is
  an object: once \<open>registerIdentity(key, host)\<close> has returned, \<open>getTranslator(key)\<close>
  succeeds (it does not raise the "not registered" error) and returns the RecordTranslator
  of \<open>host\<close>, the one object the table holds for \<open>host\<close> and whose host is \<open>host\<close>.
\<close>

theorem registered_key_gets_host_translator:
  assumes s: "s = execs before empty_registry"
    and reg: "registerIdentity key host s = Inr s1"
    and key: "\<not> instanceofCore key"
    and host: "isObjectRef host"
  shows "\<exists>a s2. getTranslator key s1 = Inr (a, s2)
           \<and> a < length (allocated s2) \<and> hot (allocated s2 ! a) = host
           \<and> translatorSingletons s2 host = Some a"
proof -
  have inv: "registry_inv s"
    unfolding s by (intro registry_inv_execs registry_inv_empty)
  have inv1: "registry_inv s1" using inv reg by (rule registry_inv_register)
  have res: "resolveInstance key s1 = Inr host"
    using key registerIdentity_get[OF reg] by (rule resolveInstance_registered)
  obtain a s2 where g: "getTranslator key s1 = Inr (a, s2)"
    and a: "translatorSingletons s2 host = Some a"
    using getTranslator_total[OF res host] by auto
  have "registry_inv s2" using inv1 g by (rule registry_inv_getTranslator)
  with a have "a < length (allocated s2) \<and> hot (allocated s2 ! a) = host"
    by (simp add: registry_inv_def)
  with g a show ?thesis by simp
qed

theorem registered_key_gets_host_translator_witness:
  "empty_registry = execs [] empty_registry
   \<and> registerIdentity (OtherObject 1) (CoreInstance 2) empty_registry = Inr plugin_key_registry
   \<and> \<not> instanceofCore (OtherObject 1) \<and> isObjectRef (CoreInstance 2)
   \<and> (\<exists>a s2. getTranslator (OtherObject 1) plugin_key_registry = Inr (a, s2)
           \<and> a < length (allocated s2) \<and> hot (allocated s2 ! a) = CoreInstance 2
           \<and> translatorSingletons s2 (CoreInstance 2) = Some a)"
  using registered_key_gets_host_translator
    [of empty_registry "[]" "OtherObject 1" "CoreInstance 2" plugin_key_registry]
  by (simp add: registerIdentity_def wm_set_def empty_registry_def plugin_key_registry_def)

text \<open>
  C6 as stated fails for a key that is itself a Core instance: \<open>getTranslator\<close> takes such
  a key for the host and never looks it up. After \<open>registerIdentity(hotA, hotB)\<close>,
  \<open>getTranslator(hotA)\<close> returns a new translator whose host is \<open>hotA\<close>; it is not the
  translator of the registered host \<open>hotB\<close>, which has none.
\<close>

theorem core_key_ignores_registration:
  "instanceofCore (CoreInstance 1)
   \<and> registerIdentity (CoreInstance 1) (CoreInstance 2) empty_registry = Inr core_key_registry
   \<and> getTranslator (CoreInstance 1) core_key_registry = Inr (0, core_key_translated)
   \<and> hot (allocated core_key_translated ! 0) = CoreInstance 1
   \<and> hot (allocated core_key_translated ! 0) \<noteq> CoreInstance 2
   \<and> translatorSingletons core_key_translated (CoreInstance 2) = None"
  by (simp add: registerIdentity_def wm_set_def wm_get_def empty_registry_def
      core_key_registry_def core_key_translated_def getTranslator_def resolveInstance_def
      new_RecordTranslator_def)

section \<open>The registry: singletons are keyed by the host\<close>

text \<open>
  C10, as amended. Translator singletons are keyed by the resolved host, not by the
  lookup key: for every Core instance \<open>h\<close> and every key \<open>k\<close> that is not itself a Core
  instance, once \<open>registerIdentity(k, h)\<close> has returned, \<open>getTranslator(k)\<close> and
  \<open>getTranslator(h)\<close> are the same computation and return the identical RecordTranslator
  object, in either order of the calls; and a second such key registered to the same host
  shares that one translator.
\<close>

theorem translator_keyed_by_host:
  assumes core: "instanceofCore h" and key: "\<not> instanceofCore k"
    and reg: "registerIdentity k h s = Inr s1"
  shows "getTranslator k s1 = getTranslator h s1
     \<and> (\<exists>a s2. getTranslator k s1 = Inr (a, s2) \<and> getTranslator h s2 = Inr (a, s2)
                \<and> getTranslator k s2 = Inr (a, s2))
     \<and> (\<forall>k2 s2. \<not> instanceofCore k2 \<and> registerIdentity k2 h s1 = Inr s2 \<longrightarrow>
           (\<exists>a s3. getTranslator k s2 = Inr (a, s3) \<and> getTranslator k2 s3 = Inr (a, s3)
                    \<and> getTranslator h s3 = Inr (a, s3)))"
proof -
  have obj: "isObjectRef h" using core by (rule instanceofCore_object)
  have k1: "wm_get (identities s1) k = Some h"
    using reg by (rule registerIdentity_get)
  have res_k: "resolveInstance k s1 = Inr h"
    using key k1 by (rule resolveInstance_registered)
  have eq: "getTranslator k s1 = getTranslator h s1"
    by (simp add: getTranslator_def res_k resolveInstance_Core[OF core])
  obtain a s2 where g: "getTranslator k s1 = Inr (a, s2)"
    and a: "translatorSingletons s2 h = Some a" and ids: "identities s2 = identities s1"
    using getTranslator_total[OF res_k obj] by auto
  have "getTranslator h s2 = Inr (a, s2)"
    using resolveInstance_Core[OF core] obj a by (rule getTranslator_found)
  moreover have "getTranslator k s2 = Inr (a, s2)"
    using resolveInstance_registered[OF key, of s2] k1 obj a
    by (intro getTranslator_found) (simp_all add: ids)
  ultimately have part2:
    "\<exists>a s2. getTranslator k s1 = Inr (a, s2) \<and> getTranslator h s2 = Inr (a, s2)
            \<and> getTranslator k s2 = Inr (a, s2)"
    using g by simp
  have part3:
    "\<exists>a s3. getTranslator k t = Inr (a, s3) \<and> getTranslator k2 s3 = Inr (a, s3)
            \<and> getTranslator h s3 = Inr (a, s3)"
    if k2: "\<not> instanceofCore k2" and reg2: "registerIdentity k2 h s1 = Inr t" for k2 t
  proof -
    have i2: "wm_get (identities t) k2 = Some h"
      using reg2 by (rule registerIdentity_get)
    have i1: "wm_get (identities t) k = Some h"
      using reg2 k1 by (rule registerIdentity_keeps) simp
    obtain b s3 where g3: "getTranslator k t = Inr (b, s3)"
      and b: "translatorSingletons s3 h = Some b" and ids3: "identities s3 = identities t"
      using getTranslator_total[OF resolveInstance_registered[OF key i1] obj] by auto
    have "getTranslator k2 s3 = Inr (b, s3)"
      using resolveInstance_registered[OF k2, of s3] i2 obj b
      by (intro getTranslator_found) (simp_all add: ids3)
    moreover have "getTranslator h s3 = Inr (b, s3)"
      using resolveInstance_Core[OF core] obj b by (rule getTranslator_found)
    ultimately show ?thesis using g3 by simp
  qed
  show ?thesis
  proof (intro conjI allI impI)
    show "getTranslator k s1 = getTranslator h s1" by (rule eq)
    show "\<exists>a s2. getTranslator k s1 = Inr (a, s2) \<and> getTranslator h s2 = Inr (a, s2)
                \<and> getTranslator k s2 = Inr (a, s2)" by (rule part2)
    show "\<exists>a s3. getTranslator k t = Inr (a, s3) \<and> getTranslator k2 s3 = Inr (a, s3)
                    \<and> getTranslator h s3 = Inr (a, s3)"
      if "\<not> instanceofCore k2 \<and> registerIdentity k2 h s1 = Inr t" for k2 t
      using that by (intro part3) simp_all
  qed
qed

theorem translator_keyed_by_host_witness:
  "instanceofCore (CoreInstance 2) \<and> \<not> instanceofCore (OtherObject 1)
   \<and> registerIdentity (OtherObject 1) (CoreInstance 2) empty_registry = Inr plugin_key_registry
   \<and> getTranslator (OtherObject 1) plugin_key_registry =
      getTranslator (CoreInstance 2) plugin_key_registry
   \<and> (\<exists>a s2. getTranslator (OtherObject 1) plugin_key_registry = Inr (a, s2)
              \<and> getTranslator (CoreInstance 2) s2 = Inr (a, s2)
              \<and> getTranslator (OtherObject 1) s2 = Inr (a, s2))"
proof -
  have reg: "registerIdentity (OtherObject 1) (CoreInstance 2) empty_registry
               = Inr plugin_key_registry"
    by (simp add: registerIdentity_def wm_set_def empty_registry_def plugin_key_registry_def)
  have core: "instanceofCore (CoreInstance 2)" and key: "\<not> instanceofCore (OtherObject 1)"
    by simp_all
  note shared = translator_keyed_by_host [OF core key reg]
  from shared have same: "getTranslator (OtherObject 1) plugin_key_registry =
      getTranslator (CoreInstance 2) plugin_key_registry"
    by (rule conjunct1)
  from shared have again: "\<exists>a s2. getTranslator (OtherObject 1) plugin_key_registry = Inr (a, s2)
              \<and> getTranslator (CoreInstance 2) s2 = Inr (a, s2)
              \<and> getTranslator (OtherObject 1) s2 = Inr (a, s2)"
    by (rule conjunct1 [OF conjunct2])
  from core key reg same again show ?thesis
    by (intro conjI)
qed

text \<open>
  C10 as stated fails for a key that is itself a Core instance: after
  \<open>registerIdentity(hotA, hotB)\<close>, \<open>getTranslator(hotA)\<close> returns the translator at
  address 0 and \<open>getTranslator(hotB)\<close> the one at address 1, two objects.
\<close>

theorem core_key_has_own_translator:
  "instanceofCore (CoreInstance 2)
   \<and> registerIdentity (CoreInstance 1) (CoreInstance 2) empty_registry = Inr core_key_registry
   \<and> getTranslator (CoreInstance 1) core_key_registry = Inr (0, core_key_translated)
   \<and> getTranslator (CoreInstance 2) core_key_translated =
       Inr (1, core_key_translated
                 \<lparr> translatorSingletons := [CoreInstance 1 \<mapsto> 0, CoreInstance 2 \<mapsto> 1],
                   allocated := [new_RecordTranslator (CoreInstance 1),
                                 new_RecordTranslator (CoreInstance 2)] \<rparr>)"
  by (simp add: registerIdentity_def wm_set_def wm_get_def empty_registry_def
      core_key_registry_def core_key_translated_def getTranslator_def resolveInstance_def)

end
